theory Spec2Isabelle
  imports Complex_Main "HOL-Library.Sublist"
begin

section \<open>String and path primitives used by the middleware\<close>

text \<open>
  The middleware is a TypeScript class. Its strings are modelled as \<open>string\<close>. The two
  JavaScript string methods it calls are \<open>startsWith\<close> and \<open>slice\<close> with one argument.
\<close>

definition startsWith :: "string \<Rightarrow> string \<Rightarrow> bool" where
  "startsWith s p = (take (length p) s = p)"

definition slice :: "string \<Rightarrow> nat \<Rightarrow> string" where
  "slice s n = drop n s"

text \<open>
  \<open>node:path\<close> is a collaborator, not code of the repository. Its POSIX flavour is
  modelled on path segments: a path is cut at every \<open>/\<close>, empty segments and \<open>.\<close> are
  dropped, \<open>..\<close> removes the segment before it, and above the start of a relative path
  \<open>..\<close> is kept while above the root of an absolute path it is dropped. The host is
  taken to be POSIX, so \<open>path.join\<close> and \<open>path.basename\<close> are the POSIX ones too.
\<close>

fun segments :: "string \<Rightarrow> string \<Rightarrow> string list" where
  "segments cur [] = [rev cur]"
| "segments cur (c # cs) =
     (if c = CHR ''/'' then rev cur # segments [] cs else segments (c # cur) cs)"

fun normalizeSegments :: "bool \<Rightarrow> string list \<Rightarrow> string list \<Rightarrow> string list" where
  "normalizeSegments allowAboveRoot res [] = rev res"
| "normalizeSegments allowAboveRoot res (s # ss) =
     (if s = [] \<or> s = ''.'' then normalizeSegments allowAboveRoot res ss
      else if s = ''..'' then
        (case res of
           [] \<Rightarrow> normalizeSegments allowAboveRoot (if allowAboveRoot then [''..''] else []) ss
         | t # ts \<Rightarrow>
             if t = ''..''
             then normalizeSegments allowAboveRoot (if allowAboveRoot then ''..'' # res else res) ss
             else normalizeSegments allowAboveRoot ts ss)
      else normalizeSegments allowAboveRoot (s # res) ss)"

fun joinSegments :: "string list \<Rightarrow> string" where
  "joinSegments [] = []"
| "joinSegments [s] = s"
| "joinSegments (s # t # ss) = s @ ''/'' @ joinSegments (t # ss)"

definition normalizeString :: "string \<Rightarrow> bool \<Rightarrow> string" where
  "normalizeString p allowAboveRoot =
     joinSegments (normalizeSegments allowAboveRoot [] (segments [] p))"

definition posix_normalize :: "string \<Rightarrow> string" where
  "posix_normalize p =
     (if p = [] then ''.''
      else
        let isAbsolute = (hd p = CHR ''/'');
            trailingSeparator = (last p = CHR ''/'');
            r = normalizeString p (\<not> isAbsolute)
        in if r = [] then (if isAbsolute then ''/'' else if trailingSeparator then ''./'' else ''.'')
           else (if isAbsolute then ''/'' else []) @ r @ (if trailingSeparator then ''/'' else []))"

definition path_join :: "string \<Rightarrow> string \<Rightarrow> string" where
  "path_join a b =
     (if a = [] \<and> b = [] then ''.''
      else posix_normalize (if a = [] then b else if b = [] then a else a @ ''/'' @ b))"

definition basename :: "string \<Rightarrow> string" where
  "basename p =
     rev (takeWhile (\<lambda>c. c \<noteq> CHR ''/'') (dropWhile (\<lambda>c. c = CHR ''/'') (rev p)))"

text \<open>
  Containment of a file in a directory, read on path segments: the segments of the
  directory are the first segments of the file's path. This is what "inside the mount's
  root" means on disk; the middleware itself compares the two paths as strings.
\<close>

definition insideRoot :: "string \<Rightarrow> string \<Rightarrow> bool" where
  "insideRoot rootDir p =
     prefix (normalizeSegments False [] (segments [] rootDir))
            (normalizeSegments False [] (segments [] p))"

section \<open>Data model\<close>

text \<open>
  \<open>fs.Stats\<close>, as far as the middleware reads it: \<open>isFile()\<close>, \<open>mtime\<close> (a Date, kept
  as its epoch milliseconds, the value of \<open>getTime()\<close>), \<open>mtimeMs\<close> (a number that may
  carry a fraction of a millisecond) and \<open>size\<close>.
\<close>

record Stats =
  isFile :: bool
  mtime :: int
  mtimeMs :: rat
  stat_size :: nat

record FritterStaticMiddlewareDirectory =
  mountPath :: "string option"
  path :: string

record FritterStaticMiddlewareFile =
  onDiskFilePath :: string
  modifiedDate :: int
  file_size :: nat
  stats :: Stats
  file_type :: string

record FritterStaticMiddlewareOptions =
  opt_cacheControlHeader :: "string option"
  opt_dirs :: "FritterStaticMiddlewareDirectory list"
  opt_enableGzip :: "bool option"
  opt_maxAge :: "rat option"

text \<open>
  The read-only fields of the class. The mutable \<open>fileDataCache\<close> is a dictionary from
  path strings to file objects; it is passed through \<open>execute\<close> as explicit state. Each
  file object is created in one place and stored under one key, so a map from keys to
  records, updated at the key that holds the object, follows the in-place mutation.
\<close>

record FritterStaticMiddleware =
  cacheControlHeader :: string
  dirs :: "FritterStaticMiddlewareDirectory list"
  enableGzip :: bool
  maxAge :: rat

type_synonym fileDataCache = "string \<rightharpoonup> FritterStaticMiddlewareFile"

subsection \<open>The request and response collaborators\<close>

text \<open>
  The response of \<open>@fritter/core\<close> is modelled by what the middleware can do to it: a
  status code, a dictionary of headers and an optional body. \<open>setContentLength\<close>,
  \<open>setContentType\<close> and \<open>setLastModified\<close> write the header of that name, which is what
  lets \<open>removeHeaderValue("Content-Length")\<close> undo \<open>setContentLength\<close>.
\<close>

datatype stream = ReadStream string | Gzip stream

datatype headerValue = HString string | HNumber nat | HDate int | HNames "string list"

record FritterResponse =
  statusCode :: nat
  headers :: "string \<rightharpoonup> headerValue"
  body :: "stream option"

definition setStatusCode :: "nat \<Rightarrow> FritterResponse \<Rightarrow> FritterResponse" where
  "setStatusCode c r = r\<lparr>statusCode := c\<rparr>"

definition setHeaderValue :: "string \<Rightarrow> string \<Rightarrow> FritterResponse \<Rightarrow> FritterResponse" where
  "setHeaderValue n v r = r\<lparr>headers := (headers r)(n \<mapsto> HString v)\<rparr>"

definition removeHeaderValue :: "string \<Rightarrow> FritterResponse \<Rightarrow> FritterResponse" where
  "removeHeaderValue n r = r\<lparr>headers := (headers r)(n := None)\<rparr>"

definition setLastModified :: "int \<Rightarrow> FritterResponse \<Rightarrow> FritterResponse" where
  "setLastModified d r = r\<lparr>headers := (headers r)(''Last-Modified'' \<mapsto> HDate d)\<rparr>"

definition setContentType :: "string \<Rightarrow> FritterResponse \<Rightarrow> FritterResponse" where
  "setContentType t r = r\<lparr>headers := (headers r)(''Content-Type'' \<mapsto> HString t)\<rparr>"

definition setContentLength :: "nat \<Rightarrow> FritterResponse \<Rightarrow> FritterResponse" where
  "setContentLength n r = r\<lparr>headers := (headers r)(''Content-Length'' \<mapsto> HNumber n)\<rparr>"

definition appendVaryHeaderName :: "string \<Rightarrow> FritterResponse \<Rightarrow> FritterResponse" where
  "appendVaryHeaderName n r =
     r\<lparr>headers := (headers r)(''Vary'' \<mapsto>
        HNames (case headers r ''Vary'' of
                  Some (HNames ns) \<Rightarrow> if n \<in> set ns then ns else ns @ [n]
                | _ \<Rightarrow> [n]))\<rparr>"

definition setBody :: "stream \<Rightarrow> FritterResponse \<Rightarrow> FritterResponse" where
  "setBody b r = r\<lparr>body := Some b\<rparr>"

text \<open>
  The request accessors. \<open>isFresh\<close> is evaluated by the request abstraction against the
  response as it stands when the middleware asks. \<open>getAccepts().encoding(e)\<close> is the
  negotiation of the \<open>accepts\<close> package: it returns the name of the encoding when the
  client accepts \<open>e\<close>, and \<open>false\<close> when the client does not. It never returns \<open>null\<close>
  or \<open>undefined\<close>.
\<close>

datatype encodingResult = EncodingFalse | EncodingName string

record FritterRequest =
  getHttpMethod :: string
  getPath :: string
  isFresh :: "FritterResponse \<Rightarrow> bool"
  getAcceptsEncoding :: "string \<Rightarrow> encodingResult"

text \<open>
  JavaScript's \<open>v != null\<close> on such a value: the comparison is false for \<open>null\<close> and
  \<open>undefined\<close> only, so it is true for \<open>false\<close> as it is for a string.
\<close>

definition notEqualsNull :: "encodingResult \<Rightarrow> bool" where
  "notEqualsNull v = (case v of EncodingFalse \<Rightarrow> True | EncodingName n \<Rightarrow> True)"

text \<open>
  What the middleware takes from outside itself: \<open>decodeURIComponent\<close> (\<open>None\<close> when it
  throws a URIError), the file system seen through \<open>stat\<close> (\<open>None\<close> when the call fails;
  one request sees one state of the disk), \<open>mimeTypes.lookup\<close> (\<open>None\<close> for its
  \<open>false\<close>), \<open>isCompressible\<close>, and JavaScript's conversion of a number to a string.
\<close>

record Environment =
  decodeURIComponent :: "string \<Rightarrow> string option"
  stat :: "string \<Rightarrow> Stats option"
  mimeLookup :: "string \<Rightarrow> string option"
  isCompressible :: "string \<Rightarrow> bool"
  numberToString :: "rat \<Rightarrow> string"

datatype error = URIError | StatFailed string

datatype completion = Threw error | CalledNext | Returned

section \<open>The constructor\<close>

definition construct ::
  "Environment \<Rightarrow> FritterStaticMiddlewareOptions \<Rightarrow> FritterStaticMiddleware" where
  "construct env options =
     (let age = (case opt_maxAge options of None \<Rightarrow> 0 | Some a \<Rightarrow> a)
      in \<lparr> cacheControlHeader =
             (case opt_cacheControlHeader options of
                None \<Rightarrow> ''public, max-age='' @ numberToString env age
              | Some h \<Rightarrow> h),
           dirs = opt_dirs options,
           enableGzip = (case opt_enableGzip options of None \<Rightarrow> True | Some g \<Rightarrow> g),
           maxAge = age \<rparr>)"

section \<open>The middleware function\<close>

text \<open>
  The mount handling at the head of both directory loops: \<open>None\<close> is the \<open>continue\<close>
  of a mount whose prefix does not match, \<open>Some p\<close> is the value of the path variable
  after the block.
\<close>

definition handleMountPoint :: "FritterStaticMiddlewareDirectory \<Rightarrow> string \<Rightarrow> string option" where
  "handleMountPoint dir requestedFilePath =
     (case mountPath dir of
        None \<Rightarrow> Some requestedFilePath
      | Some m \<Rightarrow>
          if \<not> startsWith requestedFilePath m then None
          else Some (slice requestedFilePath (length m)))"

definition lookupType :: "Environment \<Rightarrow> string \<Rightarrow> string" where
  "lookupType env p =
     (case mimeLookup env p of
        None \<Rightarrow> ''application/octet-stream''
      | Some t \<Rightarrow> if t = [] then ''application/octet-stream'' else t)"

definition createFileData :: "Environment \<Rightarrow> string \<Rightarrow> Stats \<Rightarrow> FritterStaticMiddlewareFile" where
  "createFileData env p st =
     \<lparr> onDiskFilePath = p, modifiedDate = mtime st, file_size = stat_size st,
       stats = st, file_type = lookupType env p \<rparr>"

text \<open>
  The loop over \<open>this.dirs\<close> in \<open>execute\<close>. \<open>Rejected\<close> is the \<open>return await next()\<close> of
  the traversal check, \<open>Found k f\<close> the \<open>break\<close> after the file \<open>f\<close> was stored under the
  key \<open>k\<close>, \<open>NotFound p\<close> the end of the loop with the path variable at \<open>p\<close>.
\<close>

datatype resolution = Rejected | NotFound string | Found string FritterStaticMiddlewareFile

fun iterateDirs ::
  "Environment \<Rightarrow> FritterStaticMiddlewareDirectory list \<Rightarrow> string \<Rightarrow> resolution" where
  "iterateDirs env [] requestedFilePath = NotFound requestedFilePath"
| "iterateDirs env (dir # rest) requestedFilePath =
     (case handleMountPoint dir requestedFilePath of
        None \<Rightarrow> iterateDirs env rest requestedFilePath
      | Some requestedFilePath' \<Rightarrow>
          let onDiskFilePath' = path_join (path dir) requestedFilePath'
          in if \<not> startsWith onDiskFilePath' (path dir) then Rejected
             else (case stat env onDiskFilePath' of
                     None \<Rightarrow> iterateDirs env rest requestedFilePath'
                   | Some st \<Rightarrow>
                       if \<not> isFile st then iterateDirs env rest requestedFilePath'
                       else Found requestedFilePath' (createFileData env onDiskFilePath' st)))"

text \<open>The refresh of a file object whose \<open>mtimeMs\<close> on disk differs from the cached one.\<close>

definition checkModified ::
  "Environment \<Rightarrow> Stats \<Rightarrow> FritterStaticMiddlewareFile \<Rightarrow> FritterStaticMiddlewareFile" where
  "checkModified env st file =
     (if mtimeMs st \<noteq> mtimeMs (stats file)
      then file\<lparr> modifiedDate := mtime st, file_size := stat_size st, stats := st,
                 file_type := lookupType env (onDiskFilePath file) \<rparr>
      else file)"

text \<open>
  The response part of \<open>execute\<close>, in the order of the source: the status, Last-Modified
  and Vary that every response gets, the three headers of a response that is not a 304,
  and the body with the compression decision.
\<close>

definition preamble ::
  "FritterStaticMiddleware \<Rightarrow> FritterStaticMiddlewareFile \<Rightarrow> FritterResponse \<Rightarrow> FritterResponse" where
  "preamble this file res =
     (let r1 = setStatusCode 200 res;
          r2 = setLastModified (modifiedDate file) r1
      in if enableGzip this then appendVaryHeaderName ''Accept-Encoding'' r2 else r2)"

definition entityHeaders ::
  "FritterStaticMiddleware \<Rightarrow> FritterStaticMiddlewareFile \<Rightarrow> FritterResponse \<Rightarrow> FritterResponse" where
  "entityHeaders this file res =
     setHeaderValue ''Cache-Control'' (cacheControlHeader this)
       (setContentLength (file_size file) (setContentType (file_type file) res))"

definition shouldGzip ::
  "FritterStaticMiddleware \<Rightarrow> Environment \<Rightarrow> FritterStaticMiddlewareFile \<Rightarrow> bool" where
  "shouldGzip this env file =
     (enableGzip this \<and> file_size file > 1024 \<and> isCompressible env (file_type file))"

text \<open>The constant \<open>acceptsGzip\<close> of \<open>execute\<close>: \<open>getAccepts().encoding("gzip") != null\<close>.\<close>

definition acceptsGzip :: "FritterRequest \<Rightarrow> bool" where
  "acceptsGzip req = notEqualsNull (getAcceptsEncoding req ''gzip'')"

definition attachBody ::
  "FritterStaticMiddleware \<Rightarrow> Environment \<Rightarrow> FritterRequest \<Rightarrow> FritterStaticMiddlewareFile
     \<Rightarrow> FritterResponse \<Rightarrow> FritterResponse" where
  "attachBody this env req file res =
     (let readStream = ReadStream (onDiskFilePath file);
          r = setBody readStream res
      in if acceptsGzip req \<and> shouldGzip this env file
         then setBody (Gzip readStream)
                (setHeaderValue ''Content-Encoding'' ''gzip''
                   (removeHeaderValue ''Content-Length'' r))
         else setBody readStream r)"

definition respond ::
  "FritterStaticMiddleware \<Rightarrow> Environment \<Rightarrow> FritterRequest \<Rightarrow> FritterStaticMiddlewareFile
     \<Rightarrow> FritterResponse \<Rightarrow> FritterResponse" where
  "respond this env req file res =
     (let r = preamble this file res
      in if isFresh req r then setStatusCode 304 r
         else
           let r' = entityHeaders this file r
           in if getHttpMethod req = ''HEAD'' then r'
              else attachBody this env req file r')"

text \<open>
  The part of \<open>execute\<close> that gets the file object: the cache lookup under the
  normalized request path and, when there is none, the directory loop, which stores the
  new object under the value the path variable has by then. \<open>None\<close> is a
  \<open>return await next()\<close>; otherwise the key that holds the object, the object and the
  cache are returned.
\<close>

definition loadFileData ::
  "FritterStaticMiddleware \<Rightarrow> Environment \<Rightarrow> fileDataCache \<Rightarrow> string
     \<Rightarrow> (string \<times> FritterStaticMiddlewareFile \<times> fileDataCache) option" where
  "loadFileData this env cache requestedFilePath =
     (case cache requestedFilePath of
        Some file \<Rightarrow> Some (requestedFilePath, file, cache)
      | None \<Rightarrow>
          (case iterateDirs env (dirs this) requestedFilePath of
             Rejected \<Rightarrow> None
           | NotFound p \<Rightarrow> None
           | Found key file \<Rightarrow> Some (key, file, cache(key \<mapsto> file))))"

text \<open>
  The part of \<open>execute\<close> after a file object is in hand: the second \<open>stat\<close>, which is
  not inside a \<open>try\<close>, the refresh of the object in place, and the response. \<open>key\<close> is
  the cache key that holds the object.
\<close>

definition serveFile ::
  "FritterStaticMiddleware \<Rightarrow> Environment \<Rightarrow> FritterRequest \<Rightarrow> string
     \<Rightarrow> FritterStaticMiddlewareFile \<Rightarrow> FritterResponse \<Rightarrow> fileDataCache
     \<Rightarrow> completion \<times> FritterResponse \<times> fileDataCache" where
  "serveFile this env req key file res cache =
     (case stat env (onDiskFilePath file) of
        None \<Rightarrow> (Threw (StatFailed (onDiskFilePath file)), res, cache)
      | Some st \<Rightarrow>
          let file' = checkModified env st file
          in (Returned, respond this env req file' res, cache(key \<mapsto> file')))"

definition execute ::
  "FritterStaticMiddleware \<Rightarrow> Environment \<Rightarrow> FritterRequest \<Rightarrow> FritterResponse
     \<Rightarrow> fileDataCache \<Rightarrow> completion \<times> FritterResponse \<times> fileDataCache" where
  "execute this env req res cache =
     (if getHttpMethod req \<noteq> ''GET'' \<and> getHttpMethod req \<noteq> ''HEAD''
      then (CalledNext, res, cache)
      else
        case decodeURIComponent env (getPath req) of
          None \<Rightarrow> (Threw URIError, res, cache)
        | Some decoded \<Rightarrow>
            let requestedFilePath = posix_normalize decoded
            in if basename requestedFilePath = ''.'' then (CalledNext, res, cache)
               else
                 (case loadFileData this env cache requestedFilePath of
                    None \<Rightarrow> (CalledNext, res, cache)
                  | Some (key, file, cache') \<Rightarrow>
                      serveFile this env req key file res cache'))"

section \<open>getCacheBustedPath\<close>

text \<open>
  The loop of \<open>getCacheBustedPath\<close>: \<open>statSync\<close> in a \<open>try\<close> whose \<open>catch\<close> is empty, the
  \<open>return\<close> inside the \<open>try\<close>, and the \<open>return filePath\<close> after the loop.
\<close>

fun bustDirs ::
  "Environment \<Rightarrow> FritterStaticMiddlewareDirectory list \<Rightarrow> string \<Rightarrow> string" where
  "bustDirs env [] filePath = filePath"
| "bustDirs env (dir # rest) filePath =
     (case handleMountPoint dir filePath of
        None \<Rightarrow> bustDirs env rest filePath
      | Some filePath' \<Rightarrow>
          (case stat env (path_join (path dir) filePath') of
             Some st \<Rightarrow> filePath' @ ''?mtime='' @ numberToString env (of_int (mtime st))
           | None \<Rightarrow> bustDirs env rest filePath'))"

definition getCacheBustedPath ::
  "FritterStaticMiddleware \<Rightarrow> Environment \<Rightarrow> fileDataCache \<Rightarrow> string \<Rightarrow> string" where
  "getCacheBustedPath this env cache filePath =
     (case cache filePath of
        Some file \<Rightarrow> filePath @ ''?mtime='' @ numberToString env (mtimeMs (stats file))
      | None \<Rightarrow> bustDirs env (dirs this) filePath)"

section \<open>Fixtures for the concrete evaluations\<close>

text \<open>
  A decimal rendering of natural numbers; on integers it agrees with JavaScript's
  conversion of a number to a string.
\<close>

function showNat :: "nat \<Rightarrow> string" where
  "showNat n =
     (if n < 10 then [''0123456789'' ! n]
      else showNat (n div 10) @ [''0123456789'' ! (n mod 10)])"
  by pat_completeness auto
termination
  by (relation "measure id") auto

declare showNat.simps [simp del]

definition endsWith :: "string \<Rightarrow> string \<Rightarrow> bool" where
  "endsWith s e = startsWith (rev s) (rev e)"

text \<open>
  An environment over a given disk. The request paths of the evaluations have no
  percent escape, and on such strings \<open>decodeURIComponent\<close> returns its argument.
\<close>

definition testEnv :: "(string \<Rightarrow> Stats option) \<Rightarrow> Environment" where
  "testEnv disk =
     \<lparr> decodeURIComponent = Some,
       stat = disk,
       mimeLookup = (\<lambda>p. if endsWith p ''.css'' then Some ''text/css''
                          else if endsWith p ''.png'' then Some ''image/png''
                          else None),
       isCompressible = (\<lambda>t. t = ''text/css''),
       numberToString = (\<lambda>r. showNat (nat \<lfloor>r\<rfloor>)) \<rparr>"

definition regularFile :: "int \<Rightarrow> nat \<Rightarrow> Stats" where
  "regularFile t n = \<lparr> isFile = True, mtime = t, mtimeMs = of_int t, stat_size = n \<rparr>"

definition directory :: "int \<Rightarrow> Stats" where
  "directory t = \<lparr> isFile = False, mtime = t, mtimeMs = of_int t, stat_size = 4096 \<rparr>"

definition emptyResponse :: FritterResponse where
  "emptyResponse = \<lparr> statusCode = 404, headers = Map.empty, body = None \<rparr>"

text \<open>
  A request by its method, its path, whether it is fresh, and whether its client
  accepts gzip: the negotiation gives \<open>gzip\<close> for \<open>gzip\<close> when it does, and \<open>false\<close>
  for everything otherwise.
\<close>

definition request :: "string \<Rightarrow> string \<Rightarrow> bool \<Rightarrow> bool \<Rightarrow> FritterRequest" where
  "request method p fresh gzip =
     \<lparr> getHttpMethod = method, getPath = p, isFresh = (\<lambda>_. fresh),
       getAcceptsEncoding =
         (\<lambda>e. if gzip \<and> e = ''gzip'' then EncodingName ''gzip'' else EncodingFalse) \<rparr>"

definition middleware :: "FritterStaticMiddlewareDirectory list \<Rightarrow> FritterStaticMiddleware" where
  "middleware ds =
     \<lparr> cacheControlHeader = ''public, max-age=0'', dirs = ds, enableGzip = True, maxAge = 0 \<rparr>"

definition assetsMount :: FritterStaticMiddlewareDirectory where
  "assetsMount = \<lparr> mountPath = Some ''/assets'', path = ''/srv/static'' \<rparr>"

definition staleCache :: fileDataCache where
  "staleCache =
     [''/x.css'' \<mapsto> createFileData (testEnv Map.empty) ''/srv/static/x.css'' (regularFile 1000 2000)]"

definition threeRoots :: "FritterStaticMiddlewareDirectory list" where
  "threeRoots =
     [\<lparr>mountPath = None, path = ''/srv/one''\<rparr>,
      \<lparr>mountPath = None, path = ''/srv/two''\<rparr>,
      \<lparr>mountPath = None, path = ''/srv/three''\<rparr>]"

definition threeRootsDisk :: "string \<Rightarrow> Stats option" where
  "threeRootsDisk =
     [''/srv/one/x.css'' \<mapsto> directory 5,
      ''/srv/two/x.css'' \<mapsto> regularFile 1000 2000,
      ''/srv/three/x.css'' \<mapsto> regularFile 3000 10]"

definition nestedMounts :: "FritterStaticMiddlewareDirectory list" where
  "nestedMounts =
     [\<lparr>mountPath = Some ''/a'', path = ''/srv/one''\<rparr>,
      \<lparr>mountPath = Some ''/b'', path = ''/srv/two''\<rparr>]"

definition nestedDisk :: "string \<Rightarrow> Stats option" where
  "nestedDisk = [''/srv/two/x.css'' \<mapsto> regularFile 1000 2000]"

definition siblingDisk :: "string \<Rightarrow> Stats option" where
  "siblingDisk = [''/srv/static-secret/key.txt'' \<mapsto> regularFile 1000 64]"

definition assetsDisk :: "string \<Rightarrow> Stats option" where
  "assetsDisk =
     [''/srv/static/x.png'' \<mapsto> regularFile 1000 64,
      ''/srv/static/x.css'' \<mapsto> regularFile 1700000000000 2000]"

definition staticRoot :: FritterStaticMiddlewareDirectory where
  "staticRoot = \<lparr> mountPath = None, path = ''/srv/static'' \<rparr>"

definition changedDisk :: "string \<Rightarrow> Stats option" where
  "changedDisk = [''/srv/static/x.css'' \<mapsto> regularFile 5000 3000]"

definition smallDisk :: "string \<Rightarrow> Stats option" where
  "smallDisk = [''/srv/static/x.css'' \<mapsto> regularFile 1000 500]"

definition bigDisk :: "string \<Rightarrow> Stats option" where
  "bigDisk = [''/srv/static/x.css'' \<mapsto> regularFile 1000 2000]"

section \<open>Facts shared by the proofs\<close>

lemmas path_defs =
  startsWith_def slice_def normalizeString_def posix_normalize_def path_join_def basename_def

lemmas response_defs =
  setStatusCode_def setHeaderValue_def removeHeaderValue_def setLastModified_def
  setContentType_def setContentLength_def appendVaryHeaderName_def setBody_def

lemmas execute_defs =
  handleMountPoint_def lookupType_def createFileData_def checkModified_def preamble_def
  entityHeaders_def shouldGzip_def notEqualsNull_def acceptsGzip_def attachBody_def
  respond_def loadFileData_def serveFile_def execute_def

lemma testEnv_simps:
  "decodeURIComponent (testEnv disk) = Some"
  "stat (testEnv disk) = disk"
  "mimeLookup (testEnv disk) p =
     (if endsWith p ''.css'' then Some ''text/css''
      else if endsWith p ''.png'' then Some ''image/png'' else None)"
  "isCompressible (testEnv disk) t = (t = ''text/css'')"
  "numberToString (testEnv disk) r = showNat (nat \<lfloor>r\<rfloor>)"
  by (simp_all add: testEnv_def)

lemmas fixture_defs =
  endsWith_def testEnv_simps regularFile_def directory_def emptyResponse_def request_def
  middleware_def assetsMount_def staleCache_def showNat.simps

lemma execute_serveFile:
  assumes "getHttpMethod req = ''GET'' \<or> getHttpMethod req = ''HEAD''"
    and "decodeURIComponent env (getPath req) = Some decoded"
    and "basename (posix_normalize decoded) \<noteq> ''.''"
    and "loadFileData this env cache (posix_normalize decoded) = Some (key, file, cache')"
  shows "execute this env req res cache = serveFile this env req key file res cache'"
  using assms(1)
proof
  assume "getHttpMethod req = ''GET''"
  then show ?thesis using assms(2-4) by (simp add: execute_def)
next
  assume "getHttpMethod req = ''HEAD''"
  then show ?thesis using assms(2-4) by (simp add: execute_def)
qed

section \<open>Stale cache entries\<close>

text \<open>
  C3. When the path of a request is in the cache and the \<open>stat\<close> of the entry's file on
  disk fails, \<open>execute\<close> ends by throwing the failure of that \<open>stat\<close>: it does not call
  the next handler, it does not look at the configured directories (the result is the
  same for every configuration) and it leaves the response and the cache as they were.
  A path that is neither in the cache nor found in any directory ends in the call of
  the next handler instead.
\<close>

theorem stale_entry_stat_failure_is_thrown:
  assumes "getHttpMethod req = ''GET'' \<or> getHttpMethod req = ''HEAD''"
    and "decodeURIComponent env (getPath req) = Some decoded"
    and "basename (posix_normalize decoded) \<noteq> ''.''"
    and "cache (posix_normalize decoded) = Some file"
    and "stat env (onDiskFilePath file) = None"
  shows "execute this env req res cache = (Threw (StatFailed (onDiskFilePath file)), res, cache)
         \<and> fst (execute this env req res cache) \<noteq> CalledNext
         \<and> (cache' (posix_normalize decoded) = None
              \<and> iterateDirs env (dirs this) (posix_normalize decoded) = NotFound p
            \<longrightarrow> execute this env req res cache' = (CalledNext, res, cache'))"
proof -
  have hit: "loadFileData this env cache (posix_normalize decoded)
               = Some (posix_normalize decoded, file, cache)"
    using assms(4) by (simp add: loadFileData_def)
  have thrown: "execute this env req res cache
                  = (Threw (StatFailed (onDiskFilePath file)), res, cache)"
    using execute_serveFile [OF assms(1-3) hit] assms(5) by (simp add: serveFile_def)
  have miss: "execute this env req res cache' = (CalledNext, res, cache')"
    if "cache' (posix_normalize decoded) = None"
      and "iterateDirs env (dirs this) (posix_normalize decoded) = NotFound p"
  proof -
    have none: "loadFileData this env cache' (posix_normalize decoded) = None"
      using that by (simp add: loadFileData_def)
    then show ?thesis
      using assms(2) by (simp add: execute_def Let_def)
  qed
  show ?thesis using thrown miss by simp
qed

theorem stale_entry_stat_failure_is_thrown_witness:
  "execute (middleware [\<lparr>mountPath = None, path = ''/srv/static''\<rparr>]) (testEnv Map.empty)
     (request ''GET'' ''/x.css'' False True) emptyResponse staleCache
   = (Threw (StatFailed ''/srv/static/x.css''), emptyResponse, staleCache)"
  using stale_entry_stat_failure_is_thrown
    [of "request ''GET'' ''/x.css'' False True" "testEnv Map.empty" "''/x.css''" staleCache
        "createFileData (testEnv Map.empty) ''/srv/static/x.css'' (regularFile 1000 2000)"
        "middleware [\<lparr>mountPath = None, path = ''/srv/static''\<rparr>]" emptyResponse
        Map.empty "''/x.css''"]
  by (simp add: request_def testEnv_simps staleCache_def createFileData_def path_defs)

section \<open>The directory loop\<close>

lemma iterateDirs_append:
  "iterateDirs env earlier p = NotFound p'
     \<Longrightarrow> iterateDirs env (earlier @ later) p = iterateDirs env later p'"
  by (induction earlier arbitrary: p)
     (auto simp: Let_def split: option.splits if_splits)

lemma iterateDirs_Found:
  "iterateDirs env ds p = Found key file
     \<Longrightarrow> stat env (onDiskFilePath file) = Some (stats file) \<and> isFile (stats file)
        \<and> (\<exists>dir \<in> set ds. onDiskFilePath file = path_join (path dir) key
               \<and> startsWith (onDiskFilePath file) (path dir))"
  by (induction ds arbitrary: p)
     (auto simp: Let_def createFileData_def split: option.splits if_splits)

text \<open>
  C4. Let the mounts before \<open>dir\<close> all be passed over (the loop over them ends without
  a file and without a rejection, leaving the path variable at \<open>p'\<close>), and let \<open>dir\<close>
  match and pass the traversal check. If the \<open>stat\<close> of its candidate succeeds and
  reports a regular file, the loop over the whole list ends with that file, whatever
  mounts come later. If the \<open>stat\<close> fails or reports something that is not a regular
  file, only \<open>dir\<close> is skipped: the loop goes on with the mounts after it.
\<close>

theorem first_regular_file_wins:
  assumes "iterateDirs env earlier p = NotFound p'"
    and "handleMountPoint dir p' = Some p''"
    and "startsWith (path_join (path dir) p'') (path dir)"
  shows "(stat env (path_join (path dir) p'') = Some st \<and> isFile st
            \<longrightarrow> iterateDirs env (earlier @ dir # later) p
                  = Found p'' (createFileData env (path_join (path dir) p'') st))
       \<and> (stat env (path_join (path dir) p'') = None
            \<or> (\<exists>st'. stat env (path_join (path dir) p'') = Some st' \<and> \<not> isFile st')
            \<longrightarrow> iterateDirs env (earlier @ dir # later) p = iterateDirs env later p'')"
proof -
  have "iterateDirs env (earlier @ dir # later) p = iterateDirs env (dir # later) p'"
    using assms(1) by (rule iterateDirs_append)
  then show ?thesis
    using assms(2,3) by (auto simp: Let_def)
qed

theorem first_regular_file_wins_witness:
  "iterateDirs (testEnv threeRootsDisk) threeRoots ''/x.css''
     = Found ''/x.css''
         (createFileData (testEnv threeRootsDisk) ''/srv/two/x.css'' (regularFile 1000 2000))
   \<and> iterateDirs (testEnv threeRootsDisk) threeRoots ''/y.css''
     = iterateDirs (testEnv threeRootsDisk) [\<lparr>mountPath = None, path = ''/srv/three''\<rparr>] ''/y.css''"
proof -
  let ?env = "testEnv threeRootsDisk"
  let ?one = "\<lparr>mountPath = None, path = ''/srv/one''\<rparr>"
  let ?two = "\<lparr>mountPath = None, path = ''/srv/two''\<rparr>"
  let ?three = "\<lparr>mountPath = None, path = ''/srv/three''\<rparr>"
  have a: "iterateDirs ?env [?one] ''/x.css'' = NotFound ''/x.css''"
    by (simp add: path_defs fixture_defs handleMountPoint_def threeRootsDisk_def)
  have b: "iterateDirs ?env [?one] ''/y.css'' = NotFound ''/y.css''"
    by (simp add: path_defs fixture_defs handleMountPoint_def threeRootsDisk_def)
  have m: "handleMountPoint ?two q = Some q" for q
    by (simp add: handleMountPoint_def)
  have g: "startsWith (path_join (path ?two) ''/x.css'') (path ?two)"
    "startsWith (path_join (path ?two) ''/y.css'') (path ?two)"
    by (simp_all add: path_defs)
  show ?thesis
    using first_regular_file_wins [OF a m g(1), of "regularFile 1000 2000" "[?three]"]
      first_regular_file_wins [OF b m g(2), of "regularFile 1000 2000" "[?three]"]
    by (simp add: path_defs fixture_defs threeRoots_def threeRootsDisk_def)
qed

section \<open>Mount prefixes\<close>

text \<open>
  C10. Let a mount declare a prefix that the path starts with, and write \<open>q\<close> for the
  path without the prefix. If the mount passes the traversal check and yields no file
  (its \<open>stat\<close> fails or reports something that is not a regular file), the loop of
  \<open>execute\<close> goes on over the later mounts with \<open>q\<close>, not with the path it was given; the
  file a later mount then yields was joined from a key that mount derived from \<open>q\<close>, and
  it is stored in the cache under that key. The loop of \<open>getCacheBustedPath\<close> goes on with
  \<open>q\<close> as well when the \<open>stat\<close> fails, returns \<open>q\<close> with the query string when it
  succeeds, and returns \<open>q\<close> itself when no mount is left.
\<close>

theorem mount_prefix_stripping_is_cumulative:
  assumes "mountPath dir = Some m" and "startsWith p m"
  shows "(startsWith (path_join (path dir) (slice p (length m))) (path dir)
            \<and> (stat env (path_join (path dir) (slice p (length m))) = None
                 \<or> (\<exists>st. stat env (path_join (path dir) (slice p (length m))) = Some st
                          \<and> \<not> isFile st))
          \<longrightarrow> iterateDirs env (dir # rest) p = iterateDirs env rest (slice p (length m))
              \<and> (cache p = None \<and> dirs this = dir # rest
                    \<and> iterateDirs env rest (slice p (length m)) = Found key file
                  \<longrightarrow> loadFileData this env cache p = Some (key, file, cache(key \<mapsto> file))
                      \<and> (\<exists>d \<in> set rest. onDiskFilePath file = path_join (path d) key)))
       \<and> (stat env (path_join (path dir) (slice p (length m))) = None
          \<longrightarrow> bustDirs env (dir # rest) p = bustDirs env rest (slice p (length m))
              \<and> bustDirs env [dir] p = slice p (length m))
       \<and> (stat env (path_join (path dir) (slice p (length m))) = Some st'
          \<longrightarrow> bustDirs env (dir # rest) p
                = slice p (length m) @ ''?mtime='' @ numberToString env (of_int (mtime st')))"
proof -
  let ?q = "slice p (length m)"
  have strip: "handleMountPoint dir p = Some ?q"
    using assms by (simp add: handleMountPoint_def)
  have step: "iterateDirs env (dir # rest) p = iterateDirs env rest ?q"
    if "startsWith (path_join (path dir) ?q) (path dir)"
      and "stat env (path_join (path dir) ?q) = None
           \<or> (\<exists>st. stat env (path_join (path dir) ?q) = Some st \<and> \<not> isFile st)"
    using that strip by (auto simp: Let_def)
  have store: "loadFileData this env cache p = Some (key, file, cache(key \<mapsto> file))
               \<and> (\<exists>d \<in> set rest. onDiskFilePath file = path_join (path d) key)"
    if "iterateDirs env (dir # rest) p = iterateDirs env rest ?q"
      and "cache p = None" and "dirs this = dir # rest"
      and "iterateDirs env rest ?q = Found key file"
    using that iterateDirs_Found [OF that(4)] by (auto simp: loadFileData_def)
  have bust_miss: "bustDirs env (dir # rest) p = bustDirs env rest ?q \<and> bustDirs env [dir] p = ?q"
    if "stat env (path_join (path dir) ?q) = None"
    using that strip by simp
  have bust_hit: "bustDirs env (dir # rest) p
                    = ?q @ ''?mtime='' @ numberToString env (of_int (mtime st'))"
    if "stat env (path_join (path dir) ?q) = Some st'"
    using that strip by simp
  show ?thesis
    using step store bust_miss bust_hit by blast
qed

theorem mount_prefix_stripping_is_cumulative_witness:
  "iterateDirs (testEnv nestedDisk) nestedMounts ''/a/b/x.css''
     = Found ''/x.css''
         (createFileData (testEnv nestedDisk) ''/srv/two/x.css'' (regularFile 1000 2000))
   \<and> loadFileData (middleware nestedMounts) (testEnv nestedDisk) Map.empty ''/a/b/x.css''
     = Some (''/x.css'',
             createFileData (testEnv nestedDisk) ''/srv/two/x.css'' (regularFile 1000 2000),
             [''/x.css'' \<mapsto>
                createFileData (testEnv nestedDisk) ''/srv/two/x.css'' (regularFile 1000 2000)])
   \<and> iterateDirs (testEnv nestedDisk) (tl nestedMounts) ''/a/b/x.css'' = NotFound ''/a/b/x.css''
   \<and> bustDirs (testEnv nestedDisk) nestedMounts ''/a/b/x.css'' = ''/x.css?mtime=1000''
   \<and> bustDirs (testEnv nestedDisk) [hd nestedMounts] ''/a/b/x.css'' = ''/b/x.css''"
proof -
  let ?env = "testEnv nestedDisk"
  let ?file = "createFileData ?env ''/srv/two/x.css'' (regularFile 1000 2000)"
  have later: "iterateDirs ?env (tl nestedMounts) ''/b/x.css'' = Found ''/x.css'' ?file"
    by (simp add: path_defs fixture_defs nestedMounts_def nestedDisk_def handleMountPoint_def Let_def)
  have original: "iterateDirs ?env (tl nestedMounts) ''/a/b/x.css'' = NotFound ''/a/b/x.css''"
    by (simp add: path_defs nestedMounts_def handleMountPoint_def)
  have bust: "bustDirs ?env (tl nestedMounts) ''/b/x.css'' = ''/x.css?mtime=1000''"
    by (simp add: path_defs fixture_defs nestedMounts_def nestedDisk_def handleMountPoint_def Let_def)
  have "mountPath (hd nestedMounts) = Some ''/a''" and "startsWith ''/a/b/x.css'' ''/a''"
    by (simp_all add: nestedMounts_def startsWith_def)
  from mount_prefix_stripping_is_cumulative
         [OF this, of ?env "tl nestedMounts" Map.empty "middleware nestedMounts" "''/x.css''" ?file
            "regularFile 1000 2000"]
  show ?thesis
    using later original bust
    by (simp add: path_defs fixture_defs nestedMounts_def nestedDisk_def Let_def)
qed

section \<open>The traversal check\<close>

text \<open>
  What the check of \<open>execute\<close> does give: a mount whose joined path does not start with
  the mount's directory as a string ends the loop at once, whatever mounts follow, and
  the request goes to the next handler; and the path of every file the loop yields
  starts, as a string, with the directory of one of the mounts.
\<close>

lemma iterateDirs_Rejected:
  assumes "handleMountPoint dir p = Some q"
    and "\<not> startsWith (path_join (path dir) q) (path dir)"
  shows "iterateDirs env (dir # rest) p = Rejected"
  using assms by (simp add: Let_def)

lemma execute_Rejected:
  assumes "cache (posix_normalize decoded) = None"
    and "decodeURIComponent env (getPath req) = Some decoded"
    and "iterateDirs env (dirs this) (posix_normalize decoded) = Rejected"
  shows "execute this env req res cache = (CalledNext, res, cache)"
  using assms by (simp add: execute_def loadFileData_def Let_def)

text \<open>
  C1. The claim is that no request path with \<open>../\<close> in it is ever served from outside
  the directory of a mount. The check compares strings, so a directory beside the
  mount's whose name begins with the mount's name passes it. With the mount
  \<open>/assets\<close> on \<open>/srv/static\<close>, the request path \<open>/assets../static-secret/key.txt\<close> keeps
  its \<open>..\<close> through the normalization (the segment is \<open>assets..\<close>), loses the prefix
  \<open>/assets\<close>, and joins to \<open>/srv/static-secret/key.txt\<close>, which starts with
  \<open>/srv/static\<close>: the file is served, and it is not inside \<open>/srv/static\<close>.
\<close>

theorem traversal_check_admits_sibling_directory:
  "fst (execute (middleware [assetsMount]) (testEnv siblingDisk)
          (request ''GET'' ''/assets../static-secret/key.txt'' False False)
          emptyResponse Map.empty) = Returned
   \<and> body (fst (snd (execute (middleware [assetsMount]) (testEnv siblingDisk)
          (request ''GET'' ''/assets../static-secret/key.txt'' False False)
          emptyResponse Map.empty))) = Some (ReadStream ''/srv/static-secret/key.txt'')
   \<and> startsWith ''/srv/static-secret/key.txt'' (path assetsMount)
   \<and> \<not> insideRoot (path assetsMount) ''/srv/static-secret/key.txt''"
  by (simp add: path_defs response_defs execute_defs fixture_defs siblingDisk_def
        insideRoot_def Let_def)

section \<open>The cache key\<close>

text \<open>
  Where no mount declares a prefix, the key of a new entry is the path the loop was
  given, which is the path of the lookup.
\<close>

lemma iterateDirs_key_without_mountPath:
  assumes "\<forall>d \<in> set ds. mountPath d = None"
    and "iterateDirs env ds p = Found key file"
  shows "key = p"
  using assms
  by (induction ds arbitrary: p)
     (auto simp: Let_def handleMountPoint_def split: option.splits if_splits)

text \<open>
  C2. The claim is that a file found under a mount with a prefix is stored under the
  request path as it was before the prefix was cut off, so that the next request for
  the same path is a cache hit. The loop cuts the prefix off the very variable that is
  the key of the store. With the mount \<open>/assets\<close> on \<open>/srv/static\<close>, a request for
  \<open>/assets/x.png\<close> leaves the cache without an entry for \<open>/assets/x.png\<close> and with one
  for \<open>/x.png\<close>; the same request again finds nothing under its own path and goes
  through the directory loop again; and a request for \<open>/x.png\<close>, which no mount matches
  and which goes to the next handler on an empty cache, is now served that file.
\<close>

theorem cache_entry_is_stored_under_stripped_path:
  "snd (snd (execute (middleware [assetsMount]) (testEnv assetsDisk)
               (request ''GET'' ''/assets/x.png'' False False) emptyResponse Map.empty))
     = [''/x.png'' \<mapsto> createFileData (testEnv assetsDisk) ''/srv/static/x.png'' (regularFile 1000 64)]
   \<and> [''/x.png'' \<mapsto> createFileData (testEnv assetsDisk) ''/srv/static/x.png'' (regularFile 1000 64)]
         (posix_normalize ''/assets/x.png'') = None
   \<and> fst (execute (middleware [assetsMount]) (testEnv assetsDisk)
               (request ''GET'' ''/x.png'' False False) emptyResponse Map.empty) = CalledNext
   \<and> fst (execute (middleware [assetsMount]) (testEnv assetsDisk)
               (request ''GET'' ''/x.png'' False False) emptyResponse
               [''/x.png'' \<mapsto> createFileData (testEnv assetsDisk) ''/srv/static/x.png''
                                (regularFile 1000 64)]) = Returned"
  by (simp add: path_defs response_defs execute_defs fixture_defs assetsDisk_def Let_def)

section \<open>The cache-busted path\<close>

text \<open>
  A path in the cache comes back with the \<open>mtimeMs\<close> of its entry. Where no mount
  declares a prefix, a path that is not in the cache comes back unchanged when no
  \<open>stat\<close> succeeds, and with the modification time of the first \<open>stat\<close> that does
  otherwise.
\<close>

lemma getCacheBustedPath_cached:
  "cache p = Some file
     \<Longrightarrow> getCacheBustedPath this env cache p
           = p @ ''?mtime='' @ numberToString env (mtimeMs (stats file))"
  by (simp add: getCacheBustedPath_def)

lemma bustDirs_without_mountPath:
  assumes "\<forall>d \<in> set ds. mountPath d = None"
  shows "(\<forall>d \<in> set ds. stat env (path_join (path d) p) = None) \<and> bustDirs env ds p = p
         \<or> (\<exists>d \<in> set ds. \<exists>st. stat env (path_join (path d) p) = Some st
               \<and> bustDirs env ds p = p @ ''?mtime='' @ numberToString env (of_int (mtime st)))"
  using assms
  by (induction ds) (auto simp: handleMountPoint_def split: option.splits)

text \<open>
  C9. The claim is that \<open>getCacheBustedPath\<close> returns the path it was given, with the
  query string when a mount has the file and unchanged when none has. For a path that
  is not in the cache the loop cuts the mount's prefix off the variable it returns.
  With the mount \<open>/assets\<close> on \<open>/srv/static\<close>, \<open>/assets/x.css\<close> comes back as
  \<open>/x.css?mtime=1700000000000\<close> when the file is on disk and as \<open>/x.css\<close> when it is not.
\<close>

theorem getCacheBustedPath_returns_stripped_path:
  "getCacheBustedPath (middleware [assetsMount]) (testEnv assetsDisk) Map.empty ''/assets/x.css''
     = ''/x.css?mtime=1700000000000''
   \<and> getCacheBustedPath (middleware [assetsMount]) (testEnv Map.empty) Map.empty ''/assets/x.css''
     = ''/x.css''"
  by (simp add: path_defs getCacheBustedPath_def handleMountPoint_def fixture_defs
        assetsDisk_def)

section \<open>Serving a file\<close>

lemma execute_Returned:
  assumes "getHttpMethod req = ''GET'' \<or> getHttpMethod req = ''HEAD''"
    and "decodeURIComponent env (getPath req) = Some decoded"
    and "basename (posix_normalize decoded) \<noteq> ''.''"
    and "loadFileData this env cache (posix_normalize decoded) = Some (key, file, cache')"
    and "stat env (onDiskFilePath file) = Some st"
  shows "execute this env req res cache
           = (Returned, respond this env req (checkModified env st file) res,
              cache'(key \<mapsto> checkModified env st file))"
  using execute_serveFile [OF assms(1-4)] assms(5) by (simp add: serveFile_def Let_def)

lemma preamble_fields:
  "statusCode (preamble this file res) = 200"
  "body (preamble this file res) = body res"
  "headers (preamble this file res) ''Last-Modified'' = Some (HDate (modifiedDate file))"
  "headers (preamble this file res) ''Content-Type'' = headers res ''Content-Type''"
  "headers (preamble this file res) ''Content-Length'' = headers res ''Content-Length''"
  "headers (preamble this file res) ''Cache-Control'' = headers res ''Cache-Control''"
  "headers (preamble this file res) ''Content-Encoding'' = headers res ''Content-Encoding''"
  by (simp_all add: preamble_def response_defs Let_def)

lemma entityHeaders_fields:
  "statusCode (entityHeaders this file r) = statusCode r"
  "body (entityHeaders this file r) = body r"
  "headers (entityHeaders this file r) ''Content-Type'' = Some (HString (file_type file))"
  "headers (entityHeaders this file r) ''Content-Length'' = Some (HNumber (file_size file))"
  "headers (entityHeaders this file r) ''Cache-Control'' = Some (HString (cacheControlHeader this))"
  "headers (entityHeaders this file r) ''Content-Encoding'' = headers r ''Content-Encoding''"
  "headers (entityHeaders this file r) ''Last-Modified'' = headers r ''Last-Modified''"
  by (simp_all add: entityHeaders_def response_defs)

lemma attachBody_fields:
  "statusCode (attachBody this env req file r) = statusCode r"
  "body (attachBody this env req file r)
     = Some (if acceptsGzip req \<and> shouldGzip this env file
             then Gzip (ReadStream (onDiskFilePath file))
             else ReadStream (onDiskFilePath file))"
  "headers (attachBody this env req file r)
     = (if acceptsGzip req \<and> shouldGzip this env file
        then (headers r)(''Content-Length'' := None, ''Content-Encoding'' \<mapsto> HString ''gzip'')
        else headers r)"
  by (simp_all add: attachBody_def response_defs Let_def)

text \<open>
  C5. On a request whose path is in the cache, the entry's file is statted again. When
  the \<open>mtimeMs\<close> of that \<open>stat\<close> differs from the one in the entry, the entry's modified
  date, size, stats and type are replaced, its path on disk stays, the cache holds the
  refreshed entry under the same key, and the response is built from the refreshed
  entry: its Last-Modified is the new modification date. When the two are equal the
  entry is used as it is.
\<close>

theorem cached_entry_is_revalidated:
  assumes "getHttpMethod req = ''GET'' \<or> getHttpMethod req = ''HEAD''"
    and "decodeURIComponent env (getPath req) = Some decoded"
    and "basename (posix_normalize decoded) \<noteq> ''.''"
    and "cache (posix_normalize decoded) = Some file"
    and "stat env (onDiskFilePath file) = Some st"
  shows "(mtimeMs st \<noteq> mtimeMs (stats file) \<longrightarrow>
            execute this env req res cache
              = (Returned,
                 respond this env req
                   \<lparr> onDiskFilePath = onDiskFilePath file, modifiedDate = mtime st,
                     file_size = stat_size st, stats = st,
                     file_type = lookupType env (onDiskFilePath file) \<rparr> res,
                 cache(posix_normalize decoded \<mapsto>
                   \<lparr> onDiskFilePath = onDiskFilePath file, modifiedDate = mtime st,
                     file_size = stat_size st, stats = st,
                     file_type = lookupType env (onDiskFilePath file) \<rparr>))
            \<and> headers (fst (snd (execute this env req res cache))) ''Last-Modified''
                = Some (HDate (mtime st)))
       \<and> (mtimeMs st = mtimeMs (stats file) \<longrightarrow>
            execute this env req res cache = (Returned, respond this env req file res, cache))"
proof -
  have hit: "loadFileData this env cache (posix_normalize decoded)
               = Some (posix_normalize decoded, file, cache)"
    using assms(4) by (simp add: loadFileData_def)
  note run = execute_Returned [OF assms(1-3) hit assms(5)]
  have lm: "headers (respond this env req f res) ''Last-Modified'' = Some (HDate (modifiedDate f))"
    for f
    by (simp add: respond_def Let_def preamble_fields entityHeaders_fields attachBody_fields
          setStatusCode_def)
  have same: "cache(posix_normalize decoded \<mapsto> file) = cache"
    using assms(4) by (rule map_upd_triv)
  have refreshed:
    "file\<lparr> modifiedDate := mtime st, file_size := stat_size st, stats := st,
           file_type := lookupType env (onDiskFilePath file) \<rparr>
       = \<lparr> onDiskFilePath = onDiskFilePath file, modifiedDate = mtime st,
           file_size = stat_size st, stats = st,
           file_type = lookupType env (onDiskFilePath file) \<rparr>"
    by (cases "file") simp
  show ?thesis
    using run lm same by (simp add: checkModified_def refreshed)
qed

theorem cached_entry_is_revalidated_witness:
  "execute (middleware [staticRoot]) (testEnv changedDisk) (request ''GET'' ''/x.css'' False True)
     emptyResponse staleCache
   = (Returned,
      respond (middleware [staticRoot]) (testEnv changedDisk) (request ''GET'' ''/x.css'' False True)
        (createFileData (testEnv changedDisk) ''/srv/static/x.css'' (regularFile 5000 3000))
        emptyResponse,
      [''/x.css'' \<mapsto>
         createFileData (testEnv changedDisk) ''/srv/static/x.css'' (regularFile 5000 3000)])
   \<and> headers (fst (snd (execute (middleware [staticRoot]) (testEnv changedDisk)
                            (request ''GET'' ''/x.css'' False True) emptyResponse staleCache)))
         ''Last-Modified'' = Some (HDate 5000)"
  using cached_entry_is_revalidated
    [of "request ''GET'' ''/x.css'' False True" "testEnv changedDisk" "''/x.css''" staleCache
        "createFileData (testEnv Map.empty) ''/srv/static/x.css'' (regularFile 1000 2000)"
        "regularFile 5000 3000" "middleware [staticRoot]" emptyResponse]
  by (simp add: path_defs response_defs execute_defs fixture_defs staticRoot_def
        changedDisk_def Let_def)

section \<open>The response\<close>



section \<open>The compression decision\<close>

text \<open>
  The test of \<open>execute\<close> on the client's side holds for every request: neither value
  of the negotiation is \<open>null\<close>. So a GET response that is not fresh is compressed
  exactly when gzip is enabled, the size is above 1024 and the type is compressible;
  the effects on the headers and the body are those of the two branches.
\<close>

lemma acceptsGzip_always: "acceptsGzip req"
  by (simp add: acceptsGzip_def notEqualsNull_def split: encodingResult.split)

lemma attachBody_shouldGzip:
  "body (attachBody this env req f r)
     = Some (if shouldGzip this env f then Gzip (ReadStream (onDiskFilePath f))
             else ReadStream (onDiskFilePath f))"
  "headers (attachBody this env req f r)
     = (if shouldGzip this env f
        then (headers r)(''Content-Length'' := None, ''Content-Encoding'' \<mapsto> HString ''gzip'')
        else headers r)"
  by (simp_all add: attachBody_fields acceptsGzip_always)

text \<open>
  C7. The claim is that the body of a GET response is compressed if and only if gzip
  is enabled, the size is above 1024, the type is compressible and the client accepts
  gzip, and that the file is served uncompressed with its content-length otherwise.
  The handler tests the client's side with \<open>encoding("gzip") != null\<close>, and the
  negotiation answers \<open>false\<close>, not \<open>null\<close>, for a client that does not accept gzip.
  With gzip enabled and a file of 2000 bytes of type \<open>text/css\<close>, a GET request whose
  client does not accept gzip gets the gzip stream as its body, content-encoding
  \<open>gzip\<close> and no content-length.
\<close>

theorem gzip_is_applied_for_refusing_client:
  "getAcceptsEncoding (request ''GET'' ''/x.css'' False False) ''gzip'' = EncodingFalse
   \<and> fst (execute (middleware [staticRoot]) (testEnv bigDisk)
            (request ''GET'' ''/x.css'' False False) emptyResponse Map.empty) = Returned
   \<and> body (fst (snd (execute (middleware [staticRoot]) (testEnv bigDisk)
                        (request ''GET'' ''/x.css'' False False) emptyResponse Map.empty)))
       = Some (Gzip (ReadStream ''/srv/static/x.css''))
   \<and> headers (fst (snd (execute (middleware [staticRoot]) (testEnv bigDisk)
                        (request ''GET'' ''/x.css'' False False) emptyResponse Map.empty)))
         ''Content-Encoding'' = Some (HString ''gzip'')
   \<and> headers (fst (snd (execute (middleware [staticRoot]) (testEnv bigDisk)
                        (request ''GET'' ''/x.css'' False False) emptyResponse Map.empty)))
         ''Content-Length'' = None"
  by (simp add: path_defs response_defs execute_defs fixture_defs staticRoot_def bigDisk_def
        Let_def)

section \<open>HEAD requests\<close>

text \<open>
  C8, as claimed: a HEAD request gets exactly the headers of the same request made with
  GET. It does not where the GET response is compressed. With gzip enabled, a file of
  2000 bytes of type \<open>text/css\<close> and a client that accepts gzip, the GET response has
  content-encoding \<open>gzip\<close> and no content-length; the HEAD response has content-length
  2000 and no content-encoding.
\<close>

theorem head_headers_equal_get_headers_counterexample:
  "headers (fst (snd (execute (middleware [staticRoot]) (testEnv bigDisk)
                        (request ''HEAD'' ''/x.css'' False True) emptyResponse Map.empty)))
   \<noteq> headers (fst (snd (execute (middleware [staticRoot]) (testEnv bigDisk)
                        (request ''GET'' ''/x.css'' False True) emptyResponse Map.empty)))"
proof
  assume "headers (fst (snd (execute (middleware [staticRoot]) (testEnv bigDisk)
                        (request ''HEAD'' ''/x.css'' False True) emptyResponse Map.empty)))
   = headers (fst (snd (execute (middleware [staticRoot]) (testEnv bigDisk)
                        (request ''GET'' ''/x.css'' False True) emptyResponse Map.empty)))"
  then have "headers (fst (snd (execute (middleware [staticRoot]) (testEnv bigDisk)
                        (request ''HEAD'' ''/x.css'' False True) emptyResponse Map.empty)))
               ''Content-Encoding''
   = headers (fst (snd (execute (middleware [staticRoot]) (testEnv bigDisk)
                        (request ''GET'' ''/x.css'' False True) emptyResponse Map.empty)))
               ''Content-Encoding''"
    by simp
  then show False
    by (simp add: path_defs response_defs execute_defs fixture_defs staticRoot_def bigDisk_def
          Let_def)
qed

text \<open>
  C8, amended. Let a request resolve to a file, \<open>f\<close> being the file object after the
  refresh, and compare it made with HEAD and made with GET. Both return, with the same
  status and the same cache. The HEAD response has the body it had before the handler
  ran, it has the content-encoding it had before the handler ran, and, when the request
  is not fresh, its content-length is the size of the file. The GET headers are exactly
  the HEAD headers unless the handler takes its compression branch for the GET request
  (the request is not fresh and the handler's test \<open>acceptsGzip && shouldGzip\<close> holds);
  it does not take it when the request is fresh, gzip is disabled, the size is at most
  1024 or the type is not compressible. Where it takes it, the GET body is the gzip
  stream and the GET headers are the HEAD headers with content-length removed and
  content-encoding \<open>gzip\<close> added.
\<close>

theorem head_matches_get_before_compression:
  assumes "decodeURIComponent env (getPath req) = Some decoded"
    and "basename (posix_normalize decoded) \<noteq> ''.''"
    and "loadFileData this env cache (posix_normalize decoded) = Some (key, file, cache')"
    and "stat env (onDiskFilePath file) = Some st"
    and "f = checkModified env st file"
    and "execute this env (req\<lparr>getHttpMethod := ''HEAD''\<rparr>) res cache = (cH, rH, mH)"
    and "execute this env (req\<lparr>getHttpMethod := ''GET''\<rparr>) res cache = (cG, rG, mG)"
  shows "cH = Returned \<and> cG = Returned \<and> mH = mG
       \<and> statusCode rH = statusCode rG
       \<and> body rH = body res
       \<and> headers rH ''Content-Encoding'' = headers res ''Content-Encoding''
       \<and> headers rG
           = (if \<not> isFresh req (preamble this f res) \<and> acceptsGzip req \<and> shouldGzip this env f
              then (headers rH)(''Content-Length'' := None,
                                ''Content-Encoding'' \<mapsto> HString ''gzip'')
              else headers rH)
       \<and> (\<not> isFresh req (preamble this f res)
            \<longrightarrow> headers rH ''Content-Length'' = Some (HNumber (file_size f)))
       \<and> (\<not> isFresh req (preamble this f res) \<and> acceptsGzip req \<and> shouldGzip this env f
            \<longrightarrow> body rG = Some (Gzip (ReadStream (onDiskFilePath f))))
       \<and> (isFresh req (preamble this f res) \<or> \<not> enableGzip this \<or> file_size f \<le> 1024
              \<or> \<not> isCompressible env (file_type f)
            \<longrightarrow> headers rG = headers rH)"
proof -
  let ?h = "req\<lparr>getHttpMethod := ''HEAD''\<rparr>" and ?g = "req\<lparr>getHttpMethod := ''GET''\<rparr>"
  have "execute this env ?h res cache
          = (Returned, respond this env ?h f res, cache'(key \<mapsto> f))"
    using execute_Returned [of ?h env decoded this cache key "file" cache' st res] assms(1-5)
    by simp
  then have h: "cH = Returned" "mH = cache'(key \<mapsto> f)" "rH = respond this env ?h f res"
    using assms(6) by simp_all
  have "execute this env ?g res cache
          = (Returned, respond this env ?g f res, cache'(key \<mapsto> f))"
    using execute_Returned [of ?g env decoded this cache key "file" cache' st res] assms(1-5)
    by simp
  then have g: "cG = Returned" "mG = cache'(key \<mapsto> f)" "rG = respond this env ?g f res"
    using assms(7) by simp_all
  have a: "acceptsGzip ?g = acceptsGzip req"
    by (simp add: acceptsGzip_def)
  have fresh: ?thesis if "isFresh req (preamble this f res)"
    unfolding h g using that
    by (simp add: respond_def Let_def setStatusCode_def preamble_fields)
  have plain: ?thesis if "\<not> isFresh req (preamble this f res)" and "\<not> shouldGzip this env f"
    unfolding h g using that
    by (simp add: respond_def Let_def entityHeaders_fields preamble_fields attachBody_fields)
  have gz: ?thesis if "\<not> isFresh req (preamble this f res)" and "shouldGzip this env f"
  proof -
    have "enableGzip this" "\<not> file_size f \<le> 1024" "isCompressible env (file_type f)"
      using that(2) by (simp_all add: shouldGzip_def)
    then show ?thesis
      unfolding h g using that
      by (simp add: respond_def Let_def entityHeaders_fields preamble_fields
            attachBody_fields a)
  qed
  show ?thesis
    using fresh plain gz by blast
qed

theorem head_matches_get_before_compression_witness:
  "fst (execute (middleware [staticRoot]) (testEnv smallDisk)
          (request ''HEAD'' ''/x.css'' False True) emptyResponse Map.empty) = Returned
   \<and> statusCode (fst (snd (execute (middleware [staticRoot]) (testEnv smallDisk)
                           (request ''HEAD'' ''/x.css'' False True) emptyResponse Map.empty)))
       = statusCode (fst (snd (execute (middleware [staticRoot]) (testEnv smallDisk)
                           (request ''GET'' ''/x.css'' False True) emptyResponse Map.empty)))
   \<and> body (fst (snd (execute (middleware [staticRoot]) (testEnv smallDisk)
                           (request ''HEAD'' ''/x.css'' False True) emptyResponse Map.empty)))
       = None
   \<and> headers (fst (snd (execute (middleware [staticRoot]) (testEnv smallDisk)
                           (request ''GET'' ''/x.css'' False True) emptyResponse Map.empty)))
       = headers (fst (snd (execute (middleware [staticRoot]) (testEnv smallDisk)
                           (request ''HEAD'' ''/x.css'' False True) emptyResponse Map.empty)))
   \<and> headers (fst (snd (execute (middleware [staticRoot]) (testEnv smallDisk)
                           (request ''HEAD'' ''/x.css'' False True) emptyResponse Map.empty)))
         ''Content-Length'' = Some (HNumber 500)
   \<and> headers (fst (snd (execute (middleware [staticRoot]) (testEnv smallDisk)
                           (request ''HEAD'' ''/x.css'' False True) emptyResponse Map.empty)))
         ''Content-Encoding'' = None
   \<and> headers (fst (snd (execute (middleware [staticRoot]) (testEnv bigDisk)
                           (request ''GET'' ''/x.css'' False True) emptyResponse Map.empty)))
       = (headers (fst (snd (execute (middleware [staticRoot]) (testEnv bigDisk)
                           (request ''HEAD'' ''/x.css'' False True) emptyResponse Map.empty))))
           (''Content-Length'' := None, ''Content-Encoding'' \<mapsto> HString ''gzip'')"
proof -
  let ?mw = "middleware [staticRoot]"
  let ?req = "request ''GET'' ''/x.css'' False True"
  let ?small = "testEnv smallDisk" and ?big = "testEnv bigDisk"
  let ?sfile = "createFileData ?small ''/srv/static/x.css'' (regularFile 1000 500)"
  let ?bfile = "createFileData ?big ''/srv/static/x.css'' (regularFile 1000 2000)"
  let ?sh = "execute ?mw ?small (?req\<lparr>getHttpMethod := ''HEAD''\<rparr>) emptyResponse Map.empty"
  let ?sg = "execute ?mw ?small (?req\<lparr>getHttpMethod := ''GET''\<rparr>) emptyResponse Map.empty"
  let ?bh = "execute ?mw ?big (?req\<lparr>getHttpMethod := ''HEAD''\<rparr>) emptyResponse Map.empty"
  let ?bg = "execute ?mw ?big (?req\<lparr>getHttpMethod := ''GET''\<rparr>) emptyResponse Map.empty"
  have dec: "decodeURIComponent ?small (getPath ?req) = Some ''/x.css''"
    "decodeURIComponent ?big (getPath ?req) = Some ''/x.css''"
    by (simp_all add: testEnv_simps request_def)
  have base: "basename (posix_normalize ''/x.css'') \<noteq> ''.''"
    by (simp add: path_defs)
  have sload: "loadFileData ?mw ?small Map.empty (posix_normalize ''/x.css'')
                 = Some (''/x.css'', ?sfile, [''/x.css'' \<mapsto> ?sfile])"
    by (simp add: path_defs loadFileData_def handleMountPoint_def fixture_defs staticRoot_def
          smallDisk_def Let_def)
  have bload: "loadFileData ?mw ?big Map.empty (posix_normalize ''/x.css'')
                 = Some (''/x.css'', ?bfile, [''/x.css'' \<mapsto> ?bfile])"
    by (simp add: path_defs loadFileData_def handleMountPoint_def fixture_defs staticRoot_def
          bigDisk_def Let_def)
  have sst: "stat ?small (onDiskFilePath ?sfile) = Some (regularFile 1000 500)"
    by (simp add: testEnv_simps createFileData_def smallDisk_def)
  have bst: "stat ?big (onDiskFilePath ?bfile) = Some (regularFile 1000 2000)"
    by (simp add: testEnv_simps createFileData_def bigDisk_def)
  have sh: "?sh = (fst ?sh, fst (snd ?sh), snd (snd ?sh))"
    and sg: "?sg = (fst ?sg, fst (snd ?sg), snd (snd ?sg))"
    and bh: "?bh = (fst ?bh, fst (snd ?bh), snd (snd ?bh))"
    and bg: "?bg = (fst ?bg, fst (snd ?bg), snd (snd ?bg))"
    by simp_all
  have req: "?req\<lparr>getHttpMethod := ''HEAD''\<rparr> = request ''HEAD'' ''/x.css'' False True"
    "?req\<lparr>getHttpMethod := ''GET''\<rparr> = ?req"
    by (simp_all add: request_def)
  have fresh: "\<not> isFresh ?req y" for y
    by (simp add: request_def)
  have ssz: "file_size (checkModified ?small (regularFile 1000 500) ?sfile) = 500"
    by (simp add: checkModified_def createFileData_def regularFile_def)
  have none: "body emptyResponse = None" "headers emptyResponse ''Content-Encoding'' = None"
    by (simp_all add: emptyResponse_def)
  have small: "\<not> shouldGzip ?mw ?small (checkModified ?small (regularFile 1000 500) ?sfile)"
    by (simp add: shouldGzip_def checkModified_def createFileData_def regularFile_def)
  have big: "shouldGzip ?mw ?big (checkModified ?big (regularFile 1000 2000) ?bfile)"
    by (simp add: shouldGzip_def checkModified_def createFileData_def regularFile_def
          middleware_def lookupType_def testEnv_simps endsWith_def startsWith_def)
  show ?thesis
    using head_matches_get_before_compression [OF dec(1) base sload sst refl sh sg]
      head_matches_get_before_compression [OF dec(2) base bload bst refl bh bg]
    by (simp add: req fresh ssz none small big acceptsGzip_always)
qed

end
